theory Spec2Isabelle
  imports Complex_Main
begin

section \<open>NumPy arrays and the object store\<close>

text \<open>
  The masking step \<^verbatim>\<open>create_masked_stipple\<close> of \<^verbatim>\<open>step5_create_masked.py\<close> works on
  NumPy arrays of floating-point samples. An array is a shape, an element type and its
  samples in row-major order. The two element types of the pipeline are \<^verbatim>\<open>float32\<close>
  (what \<^verbatim>\<open>create_block_letter_s\<close> returns: \<^verbatim>\<open>np.array(img, dtype=np.float32) / 255.0\<close>)
  and \<^verbatim>\<open>float64\<close>. A sample is modelled by the real number the stored float denotes.
\<close>

datatype np_dtype = Float32 | Float64

record ndarray =
  shape :: "nat list"
  dtype :: np_dtype
  data :: "real list"

definition wf_ndarray :: "ndarray \<Rightarrow> bool" where
  "wf_ndarray a \<longleftrightarrow> length (data a) = prod_list (shape a)"


text \<open>
  Python passes arrays by reference and \<^verbatim>\<open>masked_stipple[mask_region] = 1.0\<close> writes in
  place, so arrays live in a store: an address is an index into the list of allocated
  arrays, and allocation appends.
\<close>

type_synonym addr = nat
type_synonym heap = "ndarray list"

text \<open>
  The only exception of the function: \<^verbatim>\<open>ValueError\<close>, whose message is built from the
  two shapes, first that of \<^verbatim>\<open>stipple_img\<close>, then that of \<^verbatim>\<open>mask_img\<close>.
\<close>

datatype error = ValueError "nat list" "nat list"

subsection \<open>A Python float meets an array: conversion to the element type\<close>

text \<open>
  In \<^verbatim>\<open>mask_img < threshold\<close> the threshold is a Python float, a binary64 value. NumPy
  does not compare it as it is: it converts the scalar to the element type of the array
  and compares there. For a \<^verbatim>\<open>float64\<close> array nothing changes. For a \<^verbatim>\<open>float32\<close> array
  the threshold is rounded to binary32, to the nearest value, ties to the even
  significand, and to an infinity when the rounded value leaves the binary32 range.

  Rounding to an integer, halves to the even neighbour:
\<close>

definition round_half_even :: "real \<Rightarrow> int" where
  "round_half_even x =
     (let f = \<lfloor>x\<rfloor>; d = x - of_int f
      in if d < 1 / 2 then f else if 1 / 2 < d then f + 1 else if even f then f else f + 1)"

text \<open>
  The binary32 exponent of a magnitude \<open>a\<close>: the \<open>e\<close> with \<open>2\<^sup>e \<le> a < 2\<^sup>e\<^sup>+\<^sup>1\<close>,
  kept within \<open>-126 \<dots> 127\<close> (below \<open>2\<^sup>-\<^sup>1\<^sup>2\<^sup>6\<close> the subnormal numbers share the exponent
  \<open>-126\<close>). The search walks up from \<open>e\<close> for at most \<open>n\<close> steps.
\<close>

fun exp_search :: "nat \<Rightarrow> int \<Rightarrow> real \<Rightarrow> int" where
  "exp_search 0 e a = e"
| "exp_search (Suc n) e a = (if a < 2 powi (e + 1) then e else exp_search n (e + 1) a)"

definition exponent32 :: "real \<Rightarrow> int" where
  "exponent32 a = exp_search 253 (- 126) a"

text \<open>
  A binary32 significand has 24 bits, so neighbouring values with exponent \<open>e\<close> are
  \<open>2\<^sup>e\<^sup>-\<^sup>2\<^sup>3\<close> apart; a magnitude is rounded to the nearest multiple of that spacing.
\<close>

definition mag32 :: "real \<Rightarrow> real" where
  "mag32 a = (let u = 2 powi (exponent32 a - 23) in of_int (round_half_even (a / u)) * u)"

definition round32 :: "real \<Rightarrow> real" where
  "round32 x = (if x < 0 then - mag32 (- x) else mag32 x)"

text \<open>The scalar after conversion: a finite value of the element type, or an infinity.\<close>

datatype scalar = NegInf | Finite real | PosInf

fun cast_scalar :: "np_dtype \<Rightarrow> real \<Rightarrow> scalar" where
  "cast_scalar Float64 t = Finite t"
| "cast_scalar Float32 t =
     (if 2 ^ 128 \<le> round32 t then PosInf
      else if round32 t \<le> - (2 ^ 128) then NegInf
      else Finite (round32 t))"

text \<open>Comparison of a (finite) sample with the converted scalar.\<close>

fun sample_lt :: "real \<Rightarrow> scalar \<Rightarrow> bool" where
  "sample_lt v NegInf = False"
| "sample_lt v (Finite c) = (v < c)"
| "sample_lt v PosInf = True"

fun sample_eq :: "real \<Rightarrow> scalar \<Rightarrow> bool" where
  "sample_eq v (Finite c) = (v = c)"
| "sample_eq v NegInf = False"
| "sample_eq v PosInf = False"

subsection \<open>The NumPy operations the function calls\<close>

text \<open>
  \<^verbatim>\<open>a < t\<close>: elementwise comparison of the samples with the scalar converted to the
  element type of \<^verbatim>\<open>a\<close>; the result is a boolean array.
\<close>

definition ndarray_lt :: "ndarray \<Rightarrow> real \<Rightarrow> bool list" where
  "ndarray_lt a t = map (\<lambda>v. sample_lt v (cast_scalar (dtype a) t)) (data a)"

text \<open>\<^verbatim>\<open>a == c\<close>: elementwise equality with the converted scalar.\<close>

definition ndarray_eq :: "ndarray \<Rightarrow> real \<Rightarrow> bool list" where
  "ndarray_eq a c = map (\<lambda>v. sample_eq v (cast_scalar (dtype a) c)) (data a)"

text \<open>\<^verbatim>\<open>p & q\<close> on boolean arrays of one shape.\<close>

definition logical_and :: "bool list \<Rightarrow> bool list \<Rightarrow> bool list" where
  "logical_and p q = map2 (\<lambda>a b. a \<and> b) p q"

text \<open>\<^verbatim>\<open>np.sum\<close> of a boolean array adds \<^verbatim>\<open>True\<close> as 1 and \<^verbatim>\<open>False\<close> as 0.\<close>

definition np_sum :: "bool list \<Rightarrow> int" where
  "np_sum bs = sum_list (map (\<lambda>b. if b then 1 else 0) bs)"

text \<open>
  \<^verbatim>\<open>a.copy()\<close> allocates a new array holding the shape, element type and samples
  of \<^verbatim>\<open>a\<close>.
\<close>

definition ndarray_copy :: "heap \<Rightarrow> addr \<Rightarrow> addr \<times> heap" where
  "ndarray_copy h a = (length h, h @ [h ! a])"

text \<open>
  \<^verbatim>\<open>a[region] = c\<close> with a boolean array \<^verbatim>\<open>region\<close> of the shape of \<^verbatim>\<open>a\<close>: the
  array at address \<^verbatim>\<open>a\<close> is overwritten in place where \<^verbatim>\<open>region\<close> is true. The
  function writes the scalar 1.0, which both element types hold exactly (see
  \<open>cast_scalar_one\<close> below), so the value stored is the value given.
\<close>

definition masked_assign :: "ndarray \<Rightarrow> bool list \<Rightarrow> real \<Rightarrow> ndarray" where
  "masked_assign a region c = a\<lparr>data := map2 (\<lambda>v b. if b then c else v) (data a) region\<rparr>"

definition setitem_mask :: "heap \<Rightarrow> addr \<Rightarrow> bool list \<Rightarrow> real \<Rightarrow> heap" where
  "setitem_mask h a region c = h[a := masked_assign (h ! a) region c]"

section \<open>The masking step\<close>

text \<open>
  The local variables of \<^verbatim>\<open>create_masked_stipple\<close> when it reaches its
  \<^verbatim>\<open>return\<close> statement.
\<close>

record locals =
  masked_stipple :: addr
  mask_region :: "bool list"
  removed_count :: int
  total_stipples :: int

text \<open>
  The body of \<^verbatim>\<open>create_masked_stipple\<close>, statement by statement: the shape check,
  the copy, the mask region, the in-place overwrite, and the two counts, which read
  \<^verbatim>\<open>stipple_img\<close> after the overwrite.
\<close>

definition create_masked_stipple_body ::
    "heap \<Rightarrow> addr \<Rightarrow> addr \<Rightarrow> real \<Rightarrow> (error + locals) \<times> heap" where
  "create_masked_stipple_body h stipple_img mask_img threshold =
     (if shape (h ! stipple_img) \<noteq> shape (h ! mask_img)
      then (Inl (ValueError (shape (h ! stipple_img)) (shape (h ! mask_img))), h)
      else
        let (ms, h1) = ndarray_copy h stipple_img;
            region = ndarray_lt (h1 ! mask_img) threshold;
            h2 = setitem_mask h1 ms region 1;
            removed = np_sum (logical_and (ndarray_eq (h2 ! stipple_img) 0) region);
            total = np_sum (ndarray_eq (h2 ! stipple_img) 0)
        in (Inr \<lparr>masked_stipple = ms, mask_region = region,
                  removed_count = removed, total_stipples = total\<rparr>, h2))"

text \<open>
  What the caller gets: \<^verbatim>\<open>return masked_stipple\<close> hands back the new array only; the
  other locals are dropped.
\<close>

definition create_masked_stipple ::
    "heap \<Rightarrow> addr \<Rightarrow> addr \<Rightarrow> real \<Rightarrow> (error + addr) \<times> heap" where
  "create_masked_stipple h stipple_img mask_img threshold =
     (case create_masked_stipple_body h stipple_img mask_img threshold of
        (Inl e, h') \<Rightarrow> (Inl e, h')
      | (Inr l, h') \<Rightarrow> (Inr (masked_stipple l), h'))"

text \<open>The threshold when the caller gives none.\<close>

definition default_threshold :: real where
  "default_threshold = 1 / 2"

subsection \<open>The fields of the 4 by 4 scenario\<close>

definition ink44 :: "np_dtype \<Rightarrow> ndarray" where
  "ink44 dt = \<lparr>shape = [4, 4], dtype = dt,
               data = [0, 0, 0, 0,  0, 0, 0, 0,  0, 0, 0, 0,  0, 0, 0, 0]\<rparr>"

definition mask44 :: "np_dtype \<Rightarrow> ndarray" where
  "mask44 dt = \<lparr>shape = [4, 4], dtype = dt,
                data = [0, 0, 1, 1,  0, 0, 1, 1,  0, 0, 1, 1,  0, 0, 1, 1]\<rparr>"

definition out44 :: "np_dtype \<Rightarrow> ndarray" where
  "out44 dt = \<lparr>shape = [4, 4], dtype = dt,
               data = [1, 1, 0, 0,  1, 1, 0, 0,  1, 1, 0, 0,  1, 1, 0, 0]\<rparr>"

subsection \<open>Observations used by the properties\<close>

text \<open>
  A valid input pair: both references are live, both arrays are well formed, and the
  shapes agree (the precondition the function checks).
\<close>

definition valid_pair :: "heap \<Rightarrow> addr \<Rightarrow> addr \<Rightarrow> bool" where
  "valid_pair h s m \<longleftrightarrow>
     s < length h \<and> m < length h \<and> wf_ndarray (h ! s) \<and> wf_ndarray (h ! m)
     \<and> shape (h ! s) = shape (h ! m)"

text \<open>The value range the docstring gives for both images: every sample in [0, 1].\<close>

definition unit_range :: "ndarray \<Rightarrow> bool" where
  "unit_range a \<longleftrightarrow> list_all (\<lambda>v. 0 \<le> v \<and> v \<le> 1) (data a)"

text \<open>What the caller observes of a call: the exception, or the array returned.\<close>

definition returned :: "(error + addr) \<times> heap \<Rightarrow> error + ndarray" where
  "returned r = (case r of (Inl e, h) \<Rightarrow> Inl e | (Inr a, h) \<Rightarrow> Inr (h ! a))"





subsection \<open>Small concrete fields\<close>

definition px_ink :: ndarray where
  "px_ink = \<lparr>shape = [1, 1], dtype = Float64, data = [0]\<rparr>"


text \<open>A 1 by 2 pair whose first mask sample equals the default threshold.\<close>

definition edge_stipple :: "np_dtype \<Rightarrow> ndarray" where
  "edge_stipple dt = \<lparr>shape = [1, 2], dtype = dt, data = [0, 0]\<rparr>"

definition edge_mask :: "np_dtype \<Rightarrow> ndarray" where
  "edge_mask dt = \<lparr>shape = [1, 2], dtype = dt, data = [1 / 2, 1 / 4]\<rparr>"

definition ones44 :: "np_dtype \<Rightarrow> ndarray" where
  "ones44 dt = \<lparr>shape = [4, 4], dtype = dt,
                data = [1, 1, 1, 1,  1, 1, 1, 1,  1, 1, 1, 1,  1, 1, 1, 1]\<rparr>"



section \<open>Auxiliary facts\<close>

subsection \<open>Rounding to binary32\<close>

lemma rhe_bounds: "\<lfloor>x\<rfloor> \<le> round_half_even x" "round_half_even x \<le> \<lfloor>x\<rfloor> + 1"
  by (simp_all add: round_half_even_def Let_def)

lemma rhe_of_int [simp]: "round_half_even (of_int n) = n"
  by (simp add: round_half_even_def)

lemma rhe_mono:
  assumes "x \<le> y"
  shows "round_half_even x \<le> round_half_even y"
proof (cases "\<lfloor>x\<rfloor> = \<lfloor>y\<rfloor>")
  case True
  with assms show ?thesis
    by (auto simp: round_half_even_def Let_def)
next
  case False
  with assms have "\<lfloor>x\<rfloor> + 1 \<le> \<lfloor>y\<rfloor>"
    using floor_mono [of x y] by linarith
  with rhe_bounds(2) [of x] rhe_bounds(1) [of y] show ?thesis by linarith
qed

lemma exp_search_range: "e \<le> exp_search n e a \<and> exp_search n e a \<le> e + int n"
  by (induction n e a rule: exp_search.induct) auto

lemma exp_search_upper:
  "exp_search n e a < e + int n \<Longrightarrow> a < 2 powi (exp_search n e a + 1)"
  by (induction n e a rule: exp_search.induct) (auto split: if_splits)

lemma exp_search_lower:
  "e < exp_search n e a \<Longrightarrow> 2 powi (exp_search n e a) \<le> a"
proof (induction n e a rule: exp_search.induct)
  case (1 e a)
  then show ?case by simp
next
  case (2 n e a)
  show ?case
  proof (cases "a < 2 powi (e + 1)")
    case True
    with 2 show ?thesis by simp
  next
    case False
    show ?thesis
    proof (cases "e + 1 < exp_search n (e + 1) a")
      case True
      with False 2 show ?thesis by simp
    next
      case False
      with exp_search_range [of "e + 1" n a] have "exp_search n (e + 1) a = e + 1" by simp
      with \<open>\<not> a < 2 powi (e + 1)\<close> show ?thesis by simp
    qed
  qed
qed

lemma exp_search_mono: "a \<le> b \<Longrightarrow> exp_search n e a \<le> exp_search n e b"
proof (induction n e a rule: exp_search.induct)
  case (1 e a)
  then show ?case by simp
next
  case (2 n e a)
  then show ?case
    using exp_search_range [of "e + 1" n b] by (auto split: if_splits)
qed

lemma exponent32_range: "- 126 \<le> exponent32 a" "exponent32 a \<le> 127"
  using exp_search_range [of "- 126" 253 a] by (simp_all add: exponent32_def)

lemma exponent32_upper: "exponent32 a < 127 \<Longrightarrow> a < 2 powi (exponent32 a + 1)"
  using exp_search_upper [of 253 "- 126" a] by (simp add: exponent32_def)

lemma exponent32_lower: "- 126 < exponent32 a \<Longrightarrow> 2 powi (exponent32 a) \<le> a"
  using exp_search_lower [of "- 126" 253 a] by (simp add: exponent32_def)

lemma exponent32_mono: "a \<le> b \<Longrightarrow> exponent32 a \<le> exponent32 b"
  by (simp add: exponent32_def exp_search_mono)

lemma exponent32_eq:
  assumes "- 126 \<le> e" "e \<le> 127" "- 126 < e \<Longrightarrow> 2 powi e \<le> a" "e < 127 \<Longrightarrow> a < 2 powi (e + 1)"
  shows "exponent32 a = e"
proof (rule ccontr)
  assume ne: "exponent32 a \<noteq> e"
  let ?f = "exponent32 a"
  show False
  proof (cases "?f < e")
    case True
    then have "a < 2 powi (?f + 1)" using assms(2) by (intro exponent32_upper) simp
    also have "\<dots> \<le> 2 powi e" using True by (intro power_int_increasing) simp_all
    also have "\<dots> \<le> a" using True exponent32_range(1) [of a] by (intro assms(3)) simp
    finally show False by simp
  next
    case False
    with ne have gt: "e < ?f" by simp
    then have "a < 2 powi (e + 1)" using exponent32_range(2) [of a] by (intro assms(4)) simp
    also have "\<dots> \<le> 2 powi ?f" using gt by (intro power_int_increasing) simp_all
    also have "\<dots> \<le> a" using gt assms(1) by (intro exponent32_lower) simp
    finally show False by simp
  qed
qed

lemma rhe_nonneg: "0 \<le> x \<Longrightarrow> 0 \<le> round_half_even x"
  using rhe_mono [of 0 x] rhe_of_int [of 0] by simp

lemma rhe_numeral [simp]: "round_half_even (numeral n) = numeral n"
  using rhe_of_int [of "numeral n"] by simp

lemma mag32_nonneg: "0 \<le> a \<Longrightarrow> 0 \<le> mag32 a"
  by (simp add: mag32_def Let_def rhe_nonneg)

lemma mag32_zero [simp]: "mag32 0 = 0"
  by (simp add: mag32_def Let_def round_half_even_def)

lemma pow_split: "(2::real) powi (e + 1) = 2 ^ 24 * 2 powi (e - 23)"
proof -
  have "(2::real) powi (24 + (e - 23)) = 2 powi 24 * 2 powi (e - 23)"
    by (rule power_int_add) simp
  then show ?thesis by (simp add: algebra_simps)
qed

lemma pow_split': "(2::real) powi e = 2 ^ 23 * 2 powi (e - 23)"
proof -
  have "(2::real) powi (23 + (e - 23)) = 2 powi 23 * 2 powi (e - 23)"
    by (rule power_int_add) simp
  then show ?thesis by (simp add: algebra_simps)
qed

lemma mag32_le_pow:
  assumes "exponent32 a < 127"
  shows "mag32 a \<le> 2 powi (exponent32 a + 1)"
proof -
  let ?e = "exponent32 a" and ?u = "(2::real) powi (exponent32 a - 23)"
  have u: "0 < ?u" by simp
  have "a < 2 powi (?e + 1)" using assms by (rule exponent32_upper)
  then have "a / ?u \<le> 2 ^ 24"
    using u by (simp add: pow_split [of ?e] pos_divide_le_eq)
  then have "round_half_even (a / ?u) \<le> round_half_even (2 ^ 24)"
    by (rule rhe_mono)
  then have "round_half_even (a / ?u) \<le> 2 ^ 24" by simp
  then have "of_int (round_half_even (a / ?u)) \<le> (of_int (2 ^ 24) :: real)"
    by (simp only: of_int_le_iff)
  then have "of_int (round_half_even (a / ?u)) \<le> (2 ^ 24 :: real)" by simp
  then have "of_int (round_half_even (a / ?u)) * ?u \<le> 2 ^ 24 * ?u"
    using u by (intro mult_right_mono) simp_all
  then show ?thesis by (simp add: mag32_def Let_def pow_split [of ?e])
qed

lemma mag32_ge_pow:
  assumes "- 126 < exponent32 a"
  shows "2 powi (exponent32 a) \<le> mag32 a"
proof -
  let ?e = "exponent32 a" and ?u = "(2::real) powi (exponent32 a - 23)"
  have u: "0 < ?u" by simp
  have "2 powi ?e \<le> a" using assms by (rule exponent32_lower)
  then have "2 ^ 23 \<le> a / ?u"
    using u by (simp add: pow_split' [of ?e] pos_le_divide_eq)
  then have "round_half_even (2 ^ 23) \<le> round_half_even (a / ?u)"
    by (rule rhe_mono)
  then have "2 ^ 23 \<le> round_half_even (a / ?u)" by simp
  then have "(of_int (2 ^ 23) :: real) \<le> of_int (round_half_even (a / ?u))"
    by (simp only: of_int_le_iff)
  then have "(2 ^ 23 :: real) \<le> of_int (round_half_even (a / ?u))" by simp
  then have "2 ^ 23 * ?u \<le> of_int (round_half_even (a / ?u)) * ?u"
    using u by (intro mult_right_mono) simp_all
  then show ?thesis by (simp add: mag32_def Let_def pow_split' [of ?e])
qed

lemma mag32_mono:
  assumes "a \<le> b"
  shows "mag32 a \<le> mag32 b"
proof (cases "exponent32 a = exponent32 b")
  case True
  let ?u = "(2::real) powi (exponent32 b - 23)"
  have "a / ?u \<le> b / ?u" using assms by (simp add: divide_right_mono)
  then have "round_half_even (a / ?u) \<le> round_half_even (b / ?u)" by (rule rhe_mono)
  then have "of_int (round_half_even (a / ?u)) * ?u \<le> of_int (round_half_even (b / ?u)) * ?u"
    by (intro mult_right_mono) simp_all
  with True show ?thesis by (simp add: mag32_def Let_def)
next
  case False
  with exponent32_mono [OF assms] have lt: "exponent32 a < exponent32 b" by simp
  have "mag32 a \<le> 2 powi (exponent32 a + 1)"
    using lt exponent32_range(2) [of b] by (intro mag32_le_pow) simp
  also have "\<dots> \<le> 2 powi (exponent32 b)"
    using lt by (intro power_int_increasing) simp_all
  also have "\<dots> \<le> mag32 b"
    using lt exponent32_range(1) [of a] by (intro mag32_ge_pow) simp
  finally show ?thesis .
qed

lemma round32_mono:
  assumes "x \<le> y"
  shows "round32 x \<le> round32 y"
proof -
  consider "0 \<le> x" | "y < 0" | "x < 0" "0 \<le> y" by linarith
  then show ?thesis
  proof cases
    case 1
    with assms show ?thesis by (simp add: round32_def mag32_mono)
  next
    case 2
    with assms show ?thesis by (simp add: round32_def mag32_mono)
  next
    case 3
    with mag32_nonneg [of "- x"] mag32_nonneg [of y] show ?thesis
      by (simp add: round32_def)
  qed
qed


lemma mag32_at:
  assumes "exponent32 a = e"
  shows "mag32 a = of_int (round_half_even (a / 2 powi (e - 23))) * 2 powi (e - 23)"
  using assms by (simp add: mag32_def Let_def)

lemma exponent32_half: "exponent32 (1 / 2) = - 1"
  by (rule exponent32_eq) simp_all

lemma round32_half: "round32 (1 / 2) = 1 / 2"
  by (simp add: round32_def mag32_at [OF exponent32_half] round_half_even_def)

lemma round32_zero [simp]: "round32 0 = 0"
  by (simp add: round32_def)

lemma exponent32_one: "exponent32 1 = 0"
  by (rule exponent32_eq) simp_all

lemma round32_one: "round32 1 = 1"
  by (simp add: round32_def mag32_at [OF exponent32_one] round_half_even_def)






subsection \<open>Converted scalars\<close>

lemma cast_scalar_zero [simp]: "cast_scalar dt 0 = Finite 0"
  by (cases dt) simp_all

lemma cast_scalar_one: "cast_scalar dt 1 = Finite 1"
  by (cases dt) (simp_all add: round32_one)

lemma cast_scalar_half: "cast_scalar dt (1 / 2) = Finite (1 / 2)"
  by (cases dt) (simp_all add: round32_half)

lemma cast_scalar_default: "cast_scalar dt default_threshold = Finite (1 / 2)"
  by (simp add: default_threshold_def cast_scalar_half)





lemma sample_lt_cast_mono:
  assumes "t1 \<le> t2" "sample_lt v (cast_scalar dt t1)"
  shows "sample_lt v (cast_scalar dt t2)"
proof (cases dt)
  case Float64
  with assms show ?thesis by simp
next
  case Float32
  have "round32 t1 \<le> round32 t2" using assms(1) by (rule round32_mono)
  with assms(2) Float32 show ?thesis by (simp split: if_splits)
qed




subsection \<open>The call in closed form\<close>

lemma body_same_shape:
  assumes "s < length h" "m < length h" "shape (h ! s) = shape (h ! m)"
  shows "create_masked_stipple_body h s m t =
     (Inr \<lparr>masked_stipple = length h,
           mask_region = ndarray_lt (h ! m) t,
           removed_count = np_sum (logical_and (ndarray_eq (h ! s) 0) (ndarray_lt (h ! m) t)),
           total_stipples = np_sum (ndarray_eq (h ! s) 0)\<rparr>,
      h @ [masked_assign (h ! s) (ndarray_lt (h ! m) t) 1])"
  using assms
  by (simp add: create_masked_stipple_body_def ndarray_copy_def setitem_mask_def nth_append
      Let_def)

lemma call_same_shape:
  assumes "s < length h" "m < length h" "shape (h ! s) = shape (h ! m)"
  shows "create_masked_stipple h s m t =
     (Inr (length h), h @ [masked_assign (h ! s) (ndarray_lt (h ! m) t) 1])"
  by (simp add: create_masked_stipple_def body_same_shape [OF assms])

lemma call_shape_differs:
  assumes "shape (h ! s) \<noteq> shape (h ! m)"
  shows "create_masked_stipple h s m t =
     (Inl (ValueError (shape (h ! s)) (shape (h ! m))), h)"
  using assms by (simp add: create_masked_stipple_def create_masked_stipple_body_def)

lemma valid_pairD:
  assumes "valid_pair h s m"
  shows "s < length h" "m < length h" "shape (h ! s) = shape (h ! m)"
    "length (data (h ! s)) = length (data (h ! m))"
  using assms by (simp_all add: valid_pair_def wf_ndarray_def)

subsection \<open>Masked assignment\<close>

lemma shape_masked_assign [simp]: "shape (masked_assign a r c) = shape a"
  by (simp add: masked_assign_def)

lemma dtype_masked_assign [simp]: "dtype (masked_assign a r c) = dtype a"
  by (simp add: masked_assign_def)

lemma length_ndarray_lt [simp]: "length (ndarray_lt a t) = length (data a)"
  by (simp add: ndarray_lt_def)




lemma masked_assign_twice:
  "masked_assign (masked_assign a r c) r c = masked_assign a r c"
proof -
  have "map2 (\<lambda>v b. if b then c else v) (map2 (\<lambda>v b. if b then c else v) xs r) r
        = map2 (\<lambda>v b. if b then c else v) xs r" for xs :: "real list"
  proof (induction xs arbitrary: r)
    case Nil
    show ?case by simp
  next
    case (Cons x xs)
    show ?case by (cases r) (simp_all add: Cons.IH)
  qed
  then show ?thesis by (simp add: masked_assign_def)
qed

subsection \<open>Row-major coordinates\<close>


subsection \<open>Counting\<close>




lemma np_sum_mono: "list_all2 (\<lambda>a b. a \<longrightarrow> b) p q \<Longrightarrow> np_sum p \<le> np_sum q"
  by (induction rule: list_all2_induct) (auto simp: np_sum_def)








subsection \<open>Raising the threshold\<close>

lemma region_mono:
  assumes "t1 \<le> t2"
  shows "list_all2 (\<lambda>a b. a \<longrightarrow> b) (ndarray_lt m t1) (ndarray_lt m t2)"
  using sample_lt_cast_mono [OF assms]
  by (auto simp: ndarray_lt_def list_all2_conv_all_nth)

lemma and_region_mono:
  assumes "t1 \<le> t2"
  shows "list_all2 (\<lambda>a b. a \<longrightarrow> b)
           (logical_and p (ndarray_lt m t1)) (logical_and p (ndarray_lt m t2))"
  using sample_lt_cast_mono [OF assms]
  by (auto simp: logical_and_def ndarray_lt_def list_all2_conv_all_nth)

lemma output_mono:
  assumes "t1 \<le> t2" "list_all (\<lambda>v. v \<le> 1) (data a)"
  shows "list_all2 (\<le>) (data (masked_assign a (ndarray_lt m t1) 1))
                        (data (masked_assign a (ndarray_lt m t2) 1))"
proof -
  have "data a ! i \<le> 1" if "i < length (data a)" for i
    using assms(2) that by (simp add: list_all_length)
  with sample_lt_cast_mono [OF assms(1)] show ?thesis
    by (auto simp: masked_assign_def ndarray_lt_def list_all2_conv_all_nth)
qed

subsection \<open>The concrete fields\<close>

lemma valid_44: "valid_pair [ink44 ds, mask44 dm] 0 1"
  by (simp add: valid_pair_def wf_ndarray_def ink44_def mask44_def)


lemma valid_edge: "valid_pair [edge_stipple ds, edge_mask dm] 0 1"
  by (simp add: valid_pair_def wf_ndarray_def edge_stipple_def edge_mask_def)

text \<open>
  The half-masked 4 by 4 pair, for every threshold that converts to a value in
  \<open>(0, 1]\<close>: the zeros of the mask are below it and the ones are not.
\<close>

lemma body_44:
  assumes "cast_scalar dm t = Finite c" "0 < c" "c \<le> 1"
  shows "create_masked_stipple_body [ink44 ds, mask44 dm] 0 1 t =
     (Inr \<lparr>masked_stipple = 2,
           mask_region = [True, True, False, False, True, True, False, False,
                          True, True, False, False, True, True, False, False],
           removed_count = 8, total_stipples = 16\<rparr>,
      [ink44 ds, mask44 dm, out44 ds])"
  using assms
  by (simp add: create_masked_stipple_body_def ndarray_copy_def
      ndarray_lt_def ndarray_eq_def logical_and_def np_sum_def setitem_mask_def
      masked_assign_def ink44_def mask44_def out44_def)

lemma call_44:
  assumes "cast_scalar dm t = Finite c" "0 < c" "c \<le> 1"
  shows "create_masked_stipple [ink44 ds, mask44 dm] 0 1 t =
     (Inr 2, [ink44 ds, mask44 dm, out44 ds])"
  using body_44 [OF assms] by (simp add: create_masked_stipple_def)


lemma body_edge:
  assumes "cast_scalar dm t = Finite c"
  shows "create_masked_stipple_body [edge_stipple ds, edge_mask dm] 0 1 t =
     (Inr \<lparr>masked_stipple = 2,
           mask_region = [1 / 2 < c, 1 / 4 < c],
           removed_count = (if 1 / 2 < c then 1 else 0) + (if 1 / 4 < c then 1 else 0),
           total_stipples = 2\<rparr>,
      [edge_stipple ds, edge_mask dm,
       \<lparr>shape = [1, 2], dtype = ds,
        data = [if 1 / 2 < c then 1 else 0, if 1 / 4 < c then 1 else 0]\<rparr>])"
  using assms
  by (simp add: create_masked_stipple_body_def ndarray_copy_def
      ndarray_lt_def ndarray_eq_def logical_and_def np_sum_def setitem_mask_def
      masked_assign_def edge_stipple_def edge_mask_def)

section \<open>Properties\<close>







text \<open>
  C3. When the shapes of the two arrays differ, the call raises the error that carries
  both shapes, and the store is the one before the call: nothing was allocated.
\<close>

theorem shape_mismatch_raises:
  assumes "shape (h ! s) \<noteq> shape (h ! m)"
  shows "create_masked_stipple h s m t =
           (Inl (ValueError (shape (h ! s)) (shape (h ! m))), h)"
  using assms by (rule call_shape_differs)

theorem shape_mismatch_raises_witness:
  "shape ([ink44 Float64, px_ink] ! 0) \<noteq> shape ([ink44 Float64, px_ink] ! 1)
   \<and> create_masked_stipple [ink44 Float64, px_ink] 0 1 default_threshold =
       (Inl (ValueError [4, 4] [1, 1]), [ink44 Float64, px_ink])"
proof -
  have d: "shape ([ink44 Float64, px_ink] ! 0) \<noteq> shape ([ink44 Float64, px_ink] ! 1)"
    by (simp add: ink44_def px_ink_def)
  from shape_mismatch_raises [OF d, of default_threshold] d show ?thesis
    by (simp add: ink44_def px_ink_def)
qed

text \<open>
  C4. The 4 by 4 scenario: the stippled field is ink (0.0) everywhere, the mask has its
  left two columns 0.0 and its right two columns 1.0, the threshold is 0.5. The function
  returns a new array whose left two columns are 1.0 and right two columns 0.0, and the
  counts it computes are 16 ink samples in total and 8 removed. This holds whatever the
  element types of the two arrays: 0.5 converts to itself.
\<close>

theorem scenario_4x4:
  "create_masked_stipple_body [ink44 ds, mask44 dm] 0 1 default_threshold =
     (Inr \<lparr>masked_stipple = 2,
           mask_region = [True, True, False, False, True, True, False, False,
                          True, True, False, False, True, True, False, False],
           removed_count = 8, total_stipples = 16\<rparr>,
      [ink44 ds, mask44 dm, out44 ds])
   \<and> create_masked_stipple [ink44 ds, mask44 dm] 0 1 default_threshold =
       (Inr 2, [ink44 ds, mask44 dm, out44 ds])"
proof -
  have c: "cast_scalar dm default_threshold = Finite (1 / 2)"
    by (rule cast_scalar_default)
  show ?thesis
    using body_44 [OF c, of ds] call_44 [OF c, of ds] by simp
qed







text \<open>
  C7. The call never mutates its inputs. For every valid input pair the returned
  reference is an address that was not allocated before the call, hence different from
  both inputs, and after the call the stippled array and the mask array hold the values
  they held before. The two inputs may be one and the same array.
\<close>

theorem inputs_not_mutated:
  assumes "valid_pair h s m"
  shows "\<exists>out h'. create_masked_stipple h s m t = (Inr out, h')
      \<and> out = length h \<and> out \<noteq> s \<and> out \<noteq> m
      \<and> h' ! s = h ! s \<and> h' ! m = h ! m"
  using valid_pairD [OF assms] by (simp add: call_same_shape nth_append)

text \<open>The mask of the 4 by 4 scenario passed as both arguments.\<close>

theorem inputs_not_mutated_witness:
  "valid_pair [mask44 Float32] 0 0
   \<and> (\<exists>out h'. create_masked_stipple [mask44 Float32] 0 0 default_threshold = (Inr out, h')
        \<and> out = 1 \<and> out \<noteq> 0 \<and> h' ! 0 = mask44 Float32 \<and> h' ! out = ones44 Float32)"
proof -
  have v: "valid_pair [mask44 Float32] 0 0"
    by (simp add: valid_pair_def wf_ndarray_def mask44_def)
  have c: "create_masked_stipple [mask44 Float32] 0 0 default_threshold =
           (Inr 1, [mask44 Float32, ones44 Float32])"
    by (simp add: create_masked_stipple_def create_masked_stipple_body_def ndarray_copy_def
        ndarray_lt_def ndarray_eq_def logical_and_def np_sum_def setitem_mask_def
        masked_assign_def cast_scalar_default mask44_def ones44_def)
  from inputs_not_mutated [OF v, of default_threshold] v c show ?thesis
    by simp
qed

text \<open>
  C8. The call is pure and deterministic. Its observable result depends only on the
  values of the two arrays and on the threshold: calls in two stores, on references to
  equal arrays, return equal arrays or raise equal errors. The only effect on the store
  is the allocation of the returned array; on an error the store is unchanged.
\<close>

theorem pure_deterministic:
  assumes "s < length h" "m < length h" "s' < length h'" "m' < length h'"
    and "h ! s = h' ! s'" "h ! m = h' ! m'"
  shows "returned (create_masked_stipple h s m t) = returned (create_masked_stipple h' s' m' t)
     \<and> snd (create_masked_stipple h s m t) =
         (case fst (create_masked_stipple h s m t) of
            Inl e \<Rightarrow> h
          | Inr out \<Rightarrow> h @ [snd (create_masked_stipple h s m t) ! out])"
proof (cases "shape (h ! s) = shape (h ! m)")
  case True
  then have "shape (h' ! s') = shape (h' ! m')" using assms(5,6) by simp
  with True assms show ?thesis
    by (simp add: call_same_shape returned_def)
next
  case False
  then have "shape (h' ! s') \<noteq> shape (h' ! m')" using assms(5,6) by simp
  with False assms(5,6) show ?thesis
    by (simp add: call_shape_differs returned_def)
qed

text \<open>The 4 by 4 pair in two stores of different layout.\<close>

theorem pure_deterministic_witness:
  "(0 :: nat) < length [ink44 Float64, mask44 Float32]
   \<and> (1 :: nat) < length [ink44 Float64, mask44 Float32]
   \<and> (2 :: nat) < length [mask44 Float32, px_ink, ink44 Float64]
   \<and> (0 :: nat) < length [mask44 Float32, px_ink, ink44 Float64]
   \<and> [ink44 Float64, mask44 Float32] ! 0 = [mask44 Float32, px_ink, ink44 Float64] ! 2
   \<and> [ink44 Float64, mask44 Float32] ! 1 = [mask44 Float32, px_ink, ink44 Float64] ! 0
   \<and> returned (create_masked_stipple [ink44 Float64, mask44 Float32] 0 1 default_threshold)
       = Inr (out44 Float64)
   \<and> returned (create_masked_stipple [mask44 Float32, px_ink, ink44 Float64] 2 0
        default_threshold) = Inr (out44 Float64)
   \<and> snd (create_masked_stipple [ink44 Float64, mask44 Float32] 0 1 default_threshold) =
       [ink44 Float64, mask44 Float32] @ [out44 Float64]"
proof -
  note c = call_44 [OF cast_scalar_default, of Float64 Float32]
  have r: "returned (create_masked_stipple [ink44 Float64, mask44 Float32] 0 1
      default_threshold) = Inr (out44 Float64)"
    using c by (simp add: returned_def)
  from pure_deterministic [of 0 "[ink44 Float64, mask44 Float32]" 1 2
      "[mask44 Float32, px_ink, ink44 Float64]" 0 default_threshold]
  have "returned (create_masked_stipple [ink44 Float64, mask44 Float32] 0 1 default_threshold) =
        returned (create_masked_stipple [mask44 Float32, px_ink, ink44 Float64] 2 0
          default_threshold)"
    by simp
  with r show ?thesis using c by simp
qed

text \<open>
  C9. Masking is monotone in the threshold. For a valid pair and \<open>t1 \<le> t2\<close>: every
  coordinate masked at \<open>t1\<close> is masked at \<open>t2\<close>; when the stippled samples lie in
  [0, 1], the output at \<open>t2\<close> is pointwise at least the output at \<open>t1\<close>; and the
  removed count at \<open>t1\<close> is at most the removed count at \<open>t2\<close>. Conversion of the
  threshold to the element type of the mask does not disturb this: rounding is monotone.
\<close>

theorem threshold_monotone:
  assumes "valid_pair h s m" "unit_range (h ! s)" "t1 \<le> t2"
  shows "\<exists>l1 h1 l2 h2.
        create_masked_stipple_body h s m t1 = (Inr l1, h1)
      \<and> create_masked_stipple_body h s m t2 = (Inr l2, h2)
      \<and> list_all2 (\<lambda>a b. a \<longrightarrow> b) (mask_region l1) (mask_region l2)
      \<and> list_all2 (\<le>) (data (h1 ! masked_stipple l1)) (data (h2 ! masked_stipple l2))
      \<and> removed_count l1 \<le> removed_count l2"
proof -
  note v = valid_pairD [OF assms(1)]
  have le1: "list_all (\<lambda>v. v \<le> 1) (data (h ! s))"
    using assms(2) by (simp add: unit_range_def list_all_iff)
  show ?thesis
    using v(1-3)
    by (simp add: body_same_shape region_mono [OF assms(3)]
        output_mono [OF assms(3) le1] np_sum_mono [OF and_region_mono [OF assms(3)]])
qed

text \<open>
  The 1 by 2 pair with a \<^verbatim>\<open>float32\<close> mask at thresholds 0.5 and 1: the region grows
  from the second sample to both, the output from \<open>[0, 1]\<close> to \<open>[1, 1]\<close>, the removed
  count from 1 to 2.
\<close>

theorem threshold_monotone_witness:
  "valid_pair [edge_stipple Float64, edge_mask Float32] 0 1
   \<and> unit_range ([edge_stipple Float64, edge_mask Float32] ! 0)
   \<and> (1 / 2 :: real) \<le> 1
   \<and> (\<exists>l1 h1 l2 h2.
        create_masked_stipple_body [edge_stipple Float64, edge_mask Float32] 0 1 (1 / 2)
          = (Inr l1, h1)
      \<and> create_masked_stipple_body [edge_stipple Float64, edge_mask Float32] 0 1 1
          = (Inr l2, h2)
      \<and> mask_region l1 = [False, True] \<and> mask_region l2 = [True, True]
      \<and> list_all2 (\<le>) (data (h1 ! masked_stipple l1)) (data (h2 ! masked_stipple l2))
      \<and> removed_count l1 = 1 \<and> removed_count l2 = 2
      \<and> removed_count l1 \<le> removed_count l2)"
proof -
  let ?h = "[edge_stipple Float64, edge_mask Float32]"
  have u: "unit_range (?h ! 0)"
    by (simp add: unit_range_def edge_stipple_def)
  have t: "(1 / 2 :: real) \<le> 1" by simp
  from threshold_monotone [OF valid_edge u t]
  obtain l1 h1 l2 h2 where
    a: "create_masked_stipple_body ?h 0 1 (1 / 2) = (Inr l1, h1)"
    and b: "create_masked_stipple_body ?h 0 1 1 = (Inr l2, h2)"
    and c: "list_all2 (\<le>) (data (h1 ! masked_stipple l1)) (data (h2 ! masked_stipple l2))"
      "removed_count l1 \<le> removed_count l2"
    by blast
  from a body_edge [OF cast_scalar_half, of Float64 Float32]
  have l1: "mask_region l1 = [False, True]" "removed_count l1 = 1"
    by auto
  from b body_edge [OF cast_scalar_one, of Float64 Float32]
  have l2: "mask_region l2 = [True, True]" "removed_count l2 = 2"
    by auto
  from a b c l1 l2 valid_edge u t show ?thesis by blast
qed

text \<open>
  C10. Masking is idempotent. For every valid pair and threshold, calling the function
  again on its own output, with the same mask and the same threshold, returns an array
  equal to that output.
\<close>

theorem masking_idempotent:
  assumes "valid_pair h s m"
  shows "\<exists>out1 h1 out2 h2.
        create_masked_stipple h s m t = (Inr out1, h1)
      \<and> create_masked_stipple h1 out1 m t = (Inr out2, h2)
      \<and> h2 ! out2 = h1 ! out1"
proof -
  note v = valid_pairD [OF assms]
  let ?o = "masked_assign (h ! s) (ndarray_lt (h ! m) t) 1"
  let ?h1 = "h @ [?o]"
  have first: "create_masked_stipple h s m t = (Inr (length h), ?h1)"
    using v(1-3) by (rule call_same_shape)
  have "create_masked_stipple ?h1 (length h) m t =
        (Inr (length ?h1), ?h1 @ [masked_assign (?h1 ! length h) (ndarray_lt (?h1 ! m) t) 1])"
    using v(2,3) by (intro call_same_shape) (simp_all add: nth_append)
  then have second: "create_masked_stipple ?h1 (length h) m t =
        (Inr (Suc (length h)), ?h1 @ [?o])"
    using v(2) by (simp add: nth_append masked_assign_twice)
  show ?thesis
    unfolding first using second by (simp add: nth_append)
qed

theorem masking_idempotent_witness:
  "valid_pair [ink44 Float64, mask44 Float32] 0 1
   \<and> (\<exists>out1 h1 out2 h2.
        create_masked_stipple [ink44 Float64, mask44 Float32] 0 1 default_threshold
          = (Inr out1, h1)
      \<and> create_masked_stipple h1 out1 1 default_threshold = (Inr out2, h2)
      \<and> h2 ! out2 = h1 ! out1 \<and> h1 ! out1 = out44 Float64)"
proof -
  from masking_idempotent [OF valid_44, of Float64 Float32 default_threshold]
  obtain out1 h1 out2 h2 where
    a: "create_masked_stipple [ink44 Float64, mask44 Float32] 0 1 default_threshold
          = (Inr out1, h1)"
    and b: "create_masked_stipple h1 out1 1 default_threshold = (Inr out2, h2)"
      "h2 ! out2 = h1 ! out1"
    by blast
  from a call_44 [OF cast_scalar_default, of Float64 Float32]
  have "h1 ! out1 = out44 Float64" by auto
  with a b valid_44 show ?thesis by blast
qed

end
